theory Spec2Isabelle
  imports Complex_Main
begin

section \<open>Data of the chat client\<close>

text \<open>
  The objects that travel between the React pages and the API server.  A chat message is
  \<^verbatim>\<open>{ role, content }\<close>; the user object kept by \<^verbatim>\<open>AuthContext\<close> carries the
  fields the chat page reads, \<^verbatim>\<open>is_admin\<close> and \<^verbatim>\<open>credits\<close>; a session record is what
  \<^verbatim>\<open>POST /chat/sessions\<close> answers with.  Strings are lists of characters.
\<close>

subsection \<open>JavaScript numbers\<close>

text \<open>
  Credits and token counts are whole numbers, and the handlers hold them as JavaScript
  numbers, that is as IEEE-754 doubles.  \<open>Whole k\<close> is the number that the whole-number
  literal \<open>k\<close> denotes: \<open>k\<close> itself when a double holds it exactly, otherwise the double
  nearest to it.  The three other values are what numbers beyond the range of a double
  turn into.
\<close>

datatype number = Whole int | PosInfinity | NegInfinity | NaN

text \<open>The number of binary digits of a positive whole number.\<close>

function bit_length :: "int \<Rightarrow> nat" where
  "bit_length n = (if n \<le> 0 then 0 else Suc (bit_length (n div 2)))"
  by pat_completeness auto
termination
  by (relation "measure nat") auto

declare bit_length.simps [simp del]

text \<open>
  The double nearest to a whole number: a number of at most 53 binary digits is held
  exactly; a longer one keeps its leading 53 digits, rounded to nearest with ties to the
  even neighbour; a result of \<open>2 ^ 1024\<close> or more is an infinity.
\<close>

definition to_double :: "int \<Rightarrow> number" where
  "to_double x =
     (let m = \<bar>x\<bar>; n = bit_length m in
      if n \<le> 53 then Whole x
      else
        (let ulp = 2 ^ (n - 53); q = m div ulp; r = m mod ulp;
             q' = (if ulp < 2 * r \<or> (2 * r = ulp \<and> odd q) then q + 1 else q);
             v = q' * ulp
         in if 2 ^ 1024 \<le> v then (if x < 0 then NegInfinity else PosInfinity)
            else Whole (if x < 0 then - v else v)))"

fun number_value :: "number \<Rightarrow> number" where
  "number_value (Whole k) = to_double k"
| "number_value x = x"

text \<open>The operator \<^verbatim>\<open>-\<close> on two numbers.\<close>

fun minus_values :: "number \<Rightarrow> number \<Rightarrow> number" where
  "minus_values NaN y = NaN"
| "minus_values x NaN = NaN"
| "minus_values PosInfinity PosInfinity = NaN"
| "minus_values NegInfinity NegInfinity = NaN"
| "minus_values PosInfinity y = PosInfinity"
| "minus_values NegInfinity y = NegInfinity"
| "minus_values (Whole a) PosInfinity = NegInfinity"
| "minus_values (Whole a) NegInfinity = PosInfinity"
| "minus_values (Whole a) (Whole b) = to_double (a - b)"

definition js_minus :: "number \<Rightarrow> number \<Rightarrow> number" where
  "js_minus x y = minus_values (number_value x) (number_value y)"

text \<open>A number in a condition: zero and \<^verbatim>\<open>NaN\<close> count as false.\<close>

fun truthy :: "number \<Rightarrow> bool" where
  "truthy (Whole k) = (k \<noteq> 0)"
| "truthy NaN = False"
| "truthy x = True"

text \<open>
  The operators \<^verbatim>\<open><=\<close> and \<^verbatim>\<open><\<close>: false whenever a side is \<^verbatim>\<open>NaN\<close>.  The handlers
  compare with zero only, and rounding a literal to its double keeps its sign, so the
  literals are compared as they are.
\<close>

fun le_values :: "number \<Rightarrow> number \<Rightarrow> bool" where
  "le_values NaN y = False"
| "le_values x NaN = False"
| "le_values NegInfinity y = True"
| "le_values x PosInfinity = True"
| "le_values PosInfinity y = False"
| "le_values x NegInfinity = False"
| "le_values (Whole a) (Whole b) = (a \<le> b)"

fun lt_values :: "number \<Rightarrow> number \<Rightarrow> bool" where
  "lt_values NaN y = False"
| "lt_values x NaN = False"
| "lt_values PosInfinity y = False"
| "lt_values x NegInfinity = False"
| "lt_values NegInfinity y = True"
| "lt_values x PosInfinity = True"
| "lt_values (Whole a) (Whole b) = (a < b)"

instantiation number :: "{zero, ord}"
begin

definition zero_number :: number where
  "zero_number = Whole 0"

definition less_eq_number :: "number \<Rightarrow> number \<Rightarrow> bool" where
  "less_eq_number x y = le_values x y"

definition less_number :: "number \<Rightarrow> number \<Rightarrow> bool" where
  "less_number x y = lt_values x y"

instance ..

end

subsection \<open>Records\<close>

record message =
  role :: string
  content :: string

record user_info =
  is_admin :: bool
  credits :: number

record chat_session =
  session_id :: string
  title :: string
  model :: string
  message_count :: nat

text \<open>
  The body of a successful \<^verbatim>\<open>POST /chat\<close>: \<^verbatim>\<open>response.data.content\<close> and
  \<^verbatim>\<open>response.data.usage?.total_tokens\<close>.  Both the \<^verbatim>\<open>usage\<close> object and its
  \<^verbatim>\<open>total_tokens\<close> field may be missing (or null).
\<close>

record usage_info =
  total_tokens :: "number option"

record chat_reply =
  reply_content :: string
  usage :: "usage_info option"

text \<open>
  A rejected request as the handlers look at it: \<^verbatim>\<open>error.response?.status\<close> and
  \<^verbatim>\<open>error.response?.data?.detail\<close>, each possibly undefined.
\<close>

record api_error =
  status :: "nat option"
  detail :: "string option"

text \<open>
  What a \<^verbatim>\<open>catch\<close> block can receive: the rejection of an API call, or the
  \<^verbatim>\<open>TypeError\<close> that reading a property of \<^verbatim>\<open>null\<close> throws.
\<close>

datatype js_error = AxiosError api_error | TypeError

text \<open>
  An entry of the model list of \<^verbatim>\<open>GET /models\<close>, the body of that answer
  (\<^verbatim>\<open>response.data.models\<close>, possibly missing), and the body of
  \<^verbatim>\<open>GET /chat/sessions/{id}\<close> (\<^verbatim>\<open>response.data.messages\<close>, possibly missing, and
  \<^verbatim>\<open>response.data.model\<close>).
\<close>

record model_info =
  model_id :: string



text \<open>The argument of \<^verbatim>\<open>chatAPI.sendMessage\<close>.\<close>

record chat_data =
  data_messages :: "message list"
  data_model :: string
  max_tokens :: nat
  temperature :: rat

section \<open>Component state and observable effects\<close>

text \<open>
  The state hooks of the \<^verbatim>\<open>Chat\<close> component together with the \<^verbatim>\<open>user\<close> of the
  surrounding \<^verbatim>\<open>AuthProvider\<close>.
\<close>

record chat_state =
  user :: "user_info option"
  selectedModel :: string
  sessions :: "chat_session list"
  currentSession :: "chat_session option"
  messages :: "message list"
  inputMessage :: string
  loading :: bool
  models :: "model_info list"
  modelsLoading :: bool

text \<open>
  Everything a handler does besides computing is recorded as an event, in program order:
  the HTTP requests it issues, the state setters it calls, the toasts and console lines it
  writes, and the effects of the response interceptor.
\<close>

datatype event =
    PostChat chat_data
  | PostChatSessions string string
  | DeleteChatSession string
  | GetChatSessions
  | GetChatSession string
  | GetModels
  | SetUser user_info
  | SetSessions "chat_session list"
  | SetCurrentSession "chat_session option"
  | SetMessages "message list"
  | SetInputMessage string
  | SetLoading bool
  | SetSelectedModel string
  | SetModels "model_info list"
  | SetModelsLoading bool
  | ToastError string
  | ToastSuccess string
  | ConsoleError string js_error
  | RemoveToken
  | SetLocationHref string
  | StopPropagation

text \<open>
  A handler is a closure over the state of the render that created it: it reads that
  snapshot throughout, and its setter calls take effect one after the other.  So a handler
  is modelled as a function from the snapshot to its list of events, and the state after
  it has run is the snapshot with the events applied in order.
\<close>

fun apply_event :: "event \<Rightarrow> chat_state \<Rightarrow> chat_state" where
  "apply_event (SetUser u) s = s\<lparr>user := Some u\<rparr>"
| "apply_event (SetSessions xs) s = s\<lparr>sessions := xs\<rparr>"
| "apply_event (SetCurrentSession c) s = s\<lparr>currentSession := c\<rparr>"
| "apply_event (SetMessages ms) s = s\<lparr>messages := ms\<rparr>"
| "apply_event (SetInputMessage i) s = s\<lparr>inputMessage := i\<rparr>"
| "apply_event (SetLoading b) s = s\<lparr>loading := b\<rparr>"
| "apply_event (SetSelectedModel m) s = s\<lparr>selectedModel := m\<rparr>"
| "apply_event (SetModels ms) s = s\<lparr>models := ms\<rparr>"
| "apply_event (SetModelsLoading b) s = s\<lparr>modelsLoading := b\<rparr>"
| "apply_event _ s = s"

definition run :: "chat_state \<Rightarrow> event list \<Rightarrow> chat_state" where
  "run s evs = foldl (\<lambda>st e. apply_event e st) s evs"

text \<open>
  What lies outside the component and the interceptor reaches: the token kept in
  \<^verbatim>\<open>localStorage\<close> and the address of the page.
\<close>

record browser =
  token :: "string option"
  location_href :: string

fun browser_event :: "event \<Rightarrow> browser \<Rightarrow> browser" where
  "browser_event RemoveToken b = b\<lparr>token := None\<rparr>"
| "browser_event (SetLocationHref h) b = b\<lparr>location_href := h\<rparr>"
| "browser_event _ b = b"

definition run_browser :: "browser \<Rightarrow> event list \<Rightarrow> browser" where
  "run_browser b evs = foldl (\<lambda>st e. browser_event e st) b evs"

fun is_request :: "event \<Rightarrow> bool" where
  "is_request (PostChat d) = True"
| "is_request (PostChatSessions t m) = True"
| "is_request (DeleteChatSession i) = True"
| "is_request GetChatSessions = True"
| "is_request (GetChatSession i) = True"
| "is_request GetModels = True"
| "is_request _ = False"

fun is_chat_request :: "event \<Rightarrow> bool" where
  "is_chat_request (PostChat d) = True"
| "is_chat_request _ = False"

fun is_create_request :: "event \<Rightarrow> bool" where
  "is_create_request (PostChatSessions t m) = True"
| "is_create_request _ = False"

fun is_set_user :: "event \<Rightarrow> bool" where
  "is_set_user (SetUser u) = True"
| "is_set_user _ = False"

section \<open>utils/api.js\<close>

text \<open>
  The response interceptor.  A fulfilled response is handed on as it is.  A rejected one
  removes the token and redirects on status 401, shows a toast on status 402, and in every
  case ends with \<^verbatim>\<open>return Promise.reject(error)\<close>.
\<close>

definition response_fulfilled :: "'a \<Rightarrow> event list \<times> (api_error + 'a)" where
  "response_fulfilled response = ([], Inr response)"

definition response_rejected :: "api_error \<Rightarrow> event list \<times> (api_error + 'a)" where
  "response_rejected error =
     ((if status error = Some 401
       then [RemoveToken, SetLocationHref ''/login'',
             ToastError ''Session expired. Please login again.'']
       else if status error = Some 402
       then [ToastError ''Insufficient credits. Please contact admin.'']
       else []),
      Inl error)"

text \<open>
  One call through the axios instance: the request is issued once, and what the transport
  brings back (\<open>raw\<close>: a rejection or a response) goes through the response interceptor.
  The request interceptor only adds the bearer token to the headers and is left out.
\<close>

definition api_call :: "event \<Rightarrow> (api_error + 'a) \<Rightarrow> event list \<times> (api_error + 'a)" where
  "api_call request raw =
     (case raw of
        Inr response \<Rightarrow> (request # fst (response_fulfilled response),
                          snd (response_fulfilled response))
      | Inl error \<Rightarrow> (request # fst (response_rejected error :: event list \<times> (api_error + 'a)),
                      snd (response_rejected error)))"

definition chatAPI_sendMessage ::
  "chat_data \<Rightarrow> (api_error + chat_reply) \<Rightarrow> event list \<times> (api_error + chat_reply)" where
  "chatAPI_sendMessage chatData raw = api_call (PostChat chatData) raw"

definition chatAPI_createSession ::
  "string \<Rightarrow> string \<Rightarrow> (api_error + chat_session) \<Rightarrow> event list \<times> (api_error + chat_session)"
  where
  "chatAPI_createSession ttl mdl raw = api_call (PostChatSessions ttl mdl) raw"

definition chatAPI_deleteSession ::
  "string \<Rightarrow> (api_error + unit) \<Rightarrow> event list \<times> (api_error + unit)" where
  "chatAPI_deleteSession sessionId raw = api_call (DeleteChatSession sessionId) raw"




section \<open>contexts/AuthContext.js\<close>

text \<open>\<^verbatim>\<open>if (user) { setUser({ ...user, credits: newCredits }) }\<close>\<close>

definition updateUserCredits :: "user_info option \<Rightarrow> number \<Rightarrow> event list" where
  "updateUserCredits usr newCredits =
     (case usr of None \<Rightarrow> [] | Some u \<Rightarrow> [SetUser (u\<lparr>credits := newCredits\<rparr>)])"

section \<open>pages/Chat.js\<close>

text \<open>
  \<^verbatim>\<open>String.prototype.trim\<close> on the characters a \<open>char\<close> can hold: tab, line feed,
  vertical tab, form feed, carriage return, space and the no-break space.
\<close>

definition isWhiteSpace :: "char \<Rightarrow> bool" where
  "isWhiteSpace c =
     (c = CHR 0x09 \<or> c = CHR 0x0A \<or> c = CHR 0x0B \<or> c = CHR 0x0C \<or> c = CHR 0x0D
      \<or> c = CHR 0x20 \<or> c = CHR 0xA0)"

definition trim :: "string \<Rightarrow> string" where
  "trim str = rev (dropWhile isWhiteSpace (rev (dropWhile isWhiteSpace str)))"




text \<open>
  \<^verbatim>\<open>createNewSession\<close>: ask the server for a session titled \<^verbatim>\<open>'New Chat'\<close> on the
  selected model.  On success the new session goes to the head of the list, becomes the
  current one and the message list is emptied.  On failure the error is logged and a toast
  shown; nothing is thrown to the caller either way.
\<close>

definition createNewSession :: "chat_state \<Rightarrow> (api_error + chat_session) \<Rightarrow> event list" where
  "createNewSession s raw =
     (case chatAPI_createSession ''New Chat'' (selectedModel s) raw of
        (called, Inr newSession) \<Rightarrow>
          called @ [SetSessions (newSession # sessions s),
                    SetCurrentSession (Some newSession),
                    SetMessages [],
                    ToastSuccess ''New chat session created'']
      | (called, Inl error) \<Rightarrow>
          called @ [ConsoleError ''Error creating session:'' (AxiosError error),
                    ToastError ''Failed to create new session''])"

text \<open>
  \<^verbatim>\<open>deleteSession\<close>: on success the session is filtered out of the list and, when it
  was the current one, the selection and the message list are cleared; on failure the
  error is logged and a toast shown.
\<close>

definition deleteSession :: "chat_state \<Rightarrow> string \<Rightarrow> (api_error + unit) \<Rightarrow> event list" where
  "deleteSession s sessionId raw =
     StopPropagation #
     (case chatAPI_deleteSession sessionId raw of
        (called, Inr done_response) \<Rightarrow>
          called @ [SetSessions (filter (\<lambda>x. session_id x \<noteq> sessionId) (sessions s))]
          @ (if (case currentSession s of None \<Rightarrow> False | Some c \<Rightarrow> session_id c = sessionId)
             then [SetCurrentSession None, SetMessages []] else [])
          @ [ToastSuccess ''Session deleted'']
      | (called, Inl error) \<Rightarrow>
          called @ [ConsoleError ''Error deleting session:'' (AxiosError error),
                    ToastError ''Failed to delete session''])"

text \<open>
  The credit check of \<^verbatim>\<open>sendMessage\<close>:
  \<^verbatim>\<open>!user?.is_admin && user?.credits <= 0\<close>.  Without a user the comparison
  \<^verbatim>\<open>undefined <= 0\<close> is false.
\<close>

definition insufficient_credits :: "user_info option \<Rightarrow> bool" where
  "insufficient_credits usr =
     (case usr of None \<Rightarrow> False | Some u \<Rightarrow> \<not> is_admin u \<and> credits u \<le> 0)"

text \<open>\<^verbatim>\<open>response.data.usage?.total_tokens\<close>\<close>

definition usage_total_tokens :: "chat_reply \<Rightarrow> number option" where
  "usage_total_tokens response =
     (case usage response of None \<Rightarrow> None | Some us \<Rightarrow> total_tokens us)"

text \<open>
  The body of the \<^verbatim>\<open>try\<close> block: the completion request, the assistant message, and
  the credit update
  \<^verbatim>\<open>if (response.data.usage?.total_tokens && !user?.is_admin)\<close>, whose body reads
  \<^verbatim>\<open>user.credits\<close> and so throws when there is no user; the new balance
  \<^verbatim>\<open>user.credits - response.data.usage.total_tokens\<close> is a subtraction of numbers.
  The second component is the exception that leaves the block, if any.
\<close>

definition send_try ::
  "chat_state \<Rightarrow> message list \<Rightarrow> (api_error + chat_reply) \<Rightarrow> event list \<times> js_error option"
  where
  "send_try s newMessages raw =
     (case chatAPI_sendMessage
             \<lparr>data_messages = newMessages, data_model = selectedModel s,
              max_tokens = 1000, temperature = 7 / 10\<rparr> raw of
        (called, Inl error) \<Rightarrow> (called, Some (AxiosError error))
      | (called, Inr response) \<Rightarrow>
          (let assistantMessage = \<lparr>role = ''assistant'', content = reply_content response\<rparr>;
               shown = called @ [SetMessages (newMessages @ [assistantMessage])]
           in case usage_total_tokens response of
                None \<Rightarrow> (shown, None)
              | Some tokens \<Rightarrow>
                  if truthy tokens
                     \<and> \<not> (case user s of None \<Rightarrow> False | Some u \<Rightarrow> is_admin u)
                  then (case user s of
                          None \<Rightarrow> (shown, Some TypeError)
                        | Some u \<Rightarrow>
                            (shown @ updateUserCredits (user s) (js_minus (credits u) tokens),
                             None))
                  else (shown, None)))"

text \<open>
  The \<^verbatim>\<open>catch\<close> block: log the error, show
  \<^verbatim>\<open>error.response?.data?.detail || 'Failed to send message'\<close>, and put the message
  list of the snapshot back.
\<close>

fun error_detail :: "js_error \<Rightarrow> string option" where
  "error_detail (AxiosError e) = detail e"
| "error_detail TypeError = None"

definition send_catch :: "chat_state \<Rightarrow> js_error \<Rightarrow> event list" where
  "send_catch s error =
     [ConsoleError ''Error sending message:'' error,
      ToastError (case error_detail error of
                    None \<Rightarrow> ''Failed to send message''
                  | Some d \<Rightarrow> if d = [] then ''Failed to send message'' else d),
      SetMessages (messages s)]"

text \<open>
  The statement \<^verbatim>\<open>if (!currentSession) { await createNewSession(); }\<close> under the
  comment ``Create session if none exists''.
\<close>

definition resolve_session :: "chat_state \<Rightarrow> (api_error + chat_session) \<Rightarrow> event list" where
  "resolve_session s create_raw =
     (if currentSession s = None then createNewSession s create_raw else [])"

text \<open>
  \<^verbatim>\<open>sendMessage\<close> returns nothing; the model returns which way it left, next to its
  events: the blank-draft return, the credit-check return, the \<^verbatim>\<open>try\<close> block running
  to its end, or the \<^verbatim>\<open>catch\<close> block with the error it caught.  \<open>create_raw\<close> and
  \<open>chat_raw\<close> are what the transport answers to the session request and to the completion
  request, should they be issued.
\<close>

datatype send_result = Blank | Insufficient | Completed | Caught js_error

definition sendMessage ::
  "chat_state \<Rightarrow> (api_error + chat_session) \<Rightarrow> (api_error + chat_reply)
     \<Rightarrow> send_result \<times> event list" where
  "sendMessage s create_raw chat_raw =
     (if trim (inputMessage s) = [] then (Blank, [])
      else if insufficient_credits (user s)
      then (Insufficient, [ToastError ''Insufficient credits. Please contact admin.''])
      else
        (let created = resolve_session s create_raw;
             userMessage = \<lparr>role = ''user'', content = trim (inputMessage s)\<rparr>;
             newMessages = messages s @ [userMessage];
             begun = created @ [SetMessages newMessages, SetInputMessage [], SetLoading True]
         in case send_try s newMessages chat_raw of
              (tried, None) \<Rightarrow> (Completed, begun @ tried @ [SetLoading False])
            | (tried, Some error) \<Rightarrow>
                (Caught error, begun @ tried @ send_catch s error @ [SetLoading False])))"

text \<open>
  The number of tokens a reply reports as used, a missing count being no tokens.
\<close>

definition reported_usage :: "chat_reply \<Rightarrow> number" where
  "reported_usage response =
     (case usage_total_tokens response of None \<Rightarrow> 0 | Some n \<Rightarrow> n)"

section \<open>Order of events\<close>

text \<open>
  \<open>first_before P Q evs\<close>: reading \<open>evs\<close> from its start, no event with \<open>Q\<close> is met
  unless an event with \<open>P\<close> was met earlier.
\<close>

fun first_before :: "('a \<Rightarrow> bool) \<Rightarrow> ('a \<Rightarrow> bool) \<Rightarrow> 'a list \<Rightarrow> bool" where
  "first_before P Q [] = True"
| "first_before P Q (x # xs) =
     (if P x then True else if Q x then False else first_before P Q xs)"

text \<open>
  An event that shows a whole exchange: the message list is set to the list \<open>old\<close> with
  exactly two more messages after it.
\<close>

fun appends_exchange :: "message list \<Rightarrow> event \<Rightarrow> bool" where
  "appends_exchange old (SetMessages ms) =
     (length ms = length old + 2 \<and> take (length old) ms = old)"
| "appends_exchange old _ = False"

section \<open>The session store behind the API\<close>

text \<open>
  The server is not part of the sources at hand; the client only sees its answers.  Its
  session store is written down here from the specification, section 4.2, keyed by session
  id, each entry with its owner.
\<close>

record stored_session =
  owner :: string
  summary :: chat_session
  history :: "message list"

type_synonym session_store = "string \<Rightarrow> stored_session option"

datatype store_error = NotFound | Forbidden

text \<open>
  Modelled from the spec: \<^verbatim>\<open>getSession(sessionId, ownerId)\<close> of the Session Store, the
  server code being absent: it ``fails with NotFound/Forbidden if missing or not owned by
  caller''.
\<close>

definition getSession ::
  "session_store \<Rightarrow> string \<Rightarrow> string \<Rightarrow> store_error + stored_session" where
  "getSession store sessionId ownerId =
     (case store sessionId of
        None \<Rightarrow> Inl NotFound
      | Some entry \<Rightarrow> if owner entry = ownerId then Inr entry else Inl Forbidden)"

text \<open>
  Modelled from the spec: \<^verbatim>\<open>deleteSession(sessionId, ownerId)\<close> of the Session Store,
  the server code being absent: ``removal; fails with NotFound if absent or not owned''.
\<close>

definition store_deleteSession ::
  "session_store \<Rightarrow> string \<Rightarrow> string \<Rightarrow> store_error + session_store" where
  "store_deleteSession store sessionId ownerId =
     (case store sessionId of
        None \<Rightarrow> Inl NotFound
      | Some entry \<Rightarrow>
          if owner entry = ownerId then Inr (store(sessionId := None)) else Inl NotFound)"

text \<open>
  Modelled from the spec: the endpoint \<^verbatim>\<open>DELETE /chat/sessions/{id}\<close>, ``204 /
  NotFound'', the server code being absent.  It answers the client with an empty success
  or with the error as an HTTP status, and leaves the store as the removal left it.
\<close>

fun http_error :: "store_error \<Rightarrow> api_error" where
  "http_error NotFound = \<lparr>status = Some 404, detail = None\<rparr>"
| "http_error Forbidden = \<lparr>status = Some 403, detail = None\<rparr>"

definition delete_endpoint ::
  "session_store \<Rightarrow> string \<Rightarrow> string \<Rightarrow> (api_error + unit) \<times> session_store" where
  "delete_endpoint store sessionId ownerId =
     (case store_deleteSession store sessionId ownerId of
        Inl e \<Rightarrow> (Inl (http_error e), store)
      | Inr store' \<Rightarrow> (Inr (), store'))"

section \<open>Sample inputs\<close>

text \<open>
  A user with 1000 credits, an administrator, a user out of credits, a user with
  \<open>10 ^ 16\<close> credits; a reply that reports 37 tokens, one that reports none and one
  that reports a single token; a rejection by the server and an answer with status 401; a
  page with one chat open, a page with no chat selected, and the latter page as it is
  after an exchange with a new draft typed; a browser holding a token.
\<close>

definition sample_user :: user_info where
  "sample_user = \<lparr>is_admin = False, credits = Whole 1000\<rparr>"

definition sample_admin :: user_info where
  "sample_admin = \<lparr>is_admin = True, credits = Whole 999999999\<rparr>"

definition sample_broke :: user_info where
  "sample_broke = \<lparr>is_admin = False, credits = Whole 0\<rparr>"

definition sample_rich :: user_info where
  "sample_rich = \<lparr>is_admin = False, credits = Whole 10000000000000000\<rparr>"

definition sample_session :: chat_session where
  "sample_session =
     \<lparr>session_id = ''s1'', title = ''New Chat'',
      model = ''mistralai/mistral-7b-instruct:free'', message_count = 0\<rparr>"

definition sample_reply :: chat_reply where
  "sample_reply =
     \<lparr>reply_content = ''Hello!'', usage = Some \<lparr>total_tokens = Some (Whole 37)\<rparr>\<rparr>"

definition sample_reply_one :: chat_reply where
  "sample_reply_one =
     \<lparr>reply_content = ''Hello!'', usage = Some \<lparr>total_tokens = Some (Whole 1)\<rparr>\<rparr>"

definition sample_reply_no_usage :: chat_reply where
  "sample_reply_no_usage = \<lparr>reply_content = ''Hello!'', usage = None\<rparr>"

definition sample_error :: api_error where
  "sample_error = \<lparr>status = Some 502, detail = Some ''Upstream unavailable''\<rparr>"

definition sample_unauthorized :: api_error where
  "sample_unauthorized = \<lparr>status = Some 401, detail = Some ''Could not validate token''\<rparr>"

definition sample_browser :: browser where
  "sample_browser = \<lparr>token = Some ''jwt'', location_href = ''/chat''\<rparr>"

definition sample_page :: "user_info \<Rightarrow> chat_state" where
  "sample_page u =
     \<lparr>user = Some u, selectedModel = ''mistralai/mistral-7b-instruct:free'',
      sessions = [sample_session], currentSession = Some sample_session,
      messages = [], inputMessage = ''Hi '', loading = False,
      models = [], modelsLoading = False\<rparr>"

definition sample_fresh_page :: "user_info \<Rightarrow> chat_state" where
  "sample_fresh_page u =
     \<lparr>user = Some u, selectedModel = ''mistralai/mistral-7b-instruct:free'',
      sessions = [], currentSession = None,
      messages = [], inputMessage = ''Hi '', loading = False,
      models = [], modelsLoading = False\<rparr>"

definition sample_stale_page :: chat_state where
  "sample_stale_page =
     \<lparr>user = Some \<lparr>is_admin = False, credits = Whole 963\<rparr>,
      selectedModel = ''mistralai/mistral-7b-instruct:free'',
      sessions = [], currentSession = None,
      messages = [\<lparr>role = ''user'', content = ''Hi''\<rparr>,
                  \<lparr>role = ''assistant'', content = ''Hello!''\<rparr>],
      inputMessage = ''Again'', loading = False,
      models = [], modelsLoading = False\<rparr>"

definition sample_store :: session_store where
  "sample_store =
     Map.empty(''s1'' \<mapsto> \<lparr>owner = ''alice'', summary = sample_session, history = []\<rparr>)"

section \<open>Basic facts\<close>

lemma run_Nil [simp]: "run s [] = s"
  by (simp add: run_def)

lemma run_Cons [simp]: "run s (e # evs) = run (apply_event e s) evs"
  by (simp add: run_def)

lemma run_append [simp]: "run s (xs @ ys) = run (run s xs) ys"
  by (simp add: run_def)

lemma run_browser_Nil [simp]: "run_browser b [] = b"
  by (simp add: run_browser_def)

lemma run_browser_Cons [simp]:
  "run_browser b (e # evs) = run_browser (browser_event e b) evs"
  by (simp add: run_browser_def)

lemma first_before_append:
  "first_before P Q (xs @ ys) =
     (if list_ex P xs then first_before P Q xs
      else if list_ex Q xs then False else first_before P Q ys)"
  by (induction xs) auto

lemma first_before_skip:
  "\<not> list_ex P xs \<Longrightarrow> \<not> list_ex Q xs \<Longrightarrow> first_before P Q (xs @ ys) = first_before P Q ys"
  by (simp add: first_before_append)

subsection \<open>Numbers\<close>

lemma bit_length_le: "n < 2 ^ k \<Longrightarrow> bit_length n \<le> k"
proof (induction k arbitrary: n)
  case 0
  then show ?case by (simp add: bit_length.simps)
next
  case (Suc k)
  show ?case
  proof (cases "n \<le> 0")
    case True
    then show ?thesis by (simp add: bit_length.simps)
  next
    case False
    have "n div 2 < 2 ^ k" using Suc.prems by auto
    then have "bit_length (n div 2) \<le> k" by (rule Suc.IH)
    then show ?thesis using False by (subst bit_length.simps) simp
  qed
qed

lemma bit_length_gt: "2 ^ k \<le> n \<Longrightarrow> k < bit_length n"
proof (induction k arbitrary: n)
  case 0
  then have "\<not> n \<le> 0" by auto
  then show ?case by (subst bit_length.simps) simp
next
  case (Suc k)
  have "(0::int) < 2 ^ Suc k" by simp
  then have pos: "\<not> n \<le> 0" using Suc.prems by linarith
  have "2 ^ k \<le> n div 2" using Suc.prems by auto
  then have "k < bit_length (n div 2)" by (rule Suc.IH)
  then show ?case using pos by (subst bit_length.simps) simp
qed

lemma bit_length_eq: "2 ^ k \<le> n \<Longrightarrow> n < 2 ^ Suc k \<Longrightarrow> bit_length n = Suc k"
  using bit_length_le [of n "Suc k"] bit_length_gt [of k n] by simp

lemma bit_length_54: "2 ^ 53 \<le> n \<Longrightarrow> n < 2 ^ 54 \<Longrightarrow> bit_length n = 54"
  using bit_length_eq [of 53 n] by simp

lemma to_double_small: "\<bar>x\<bar> < 2 ^ 53 \<Longrightarrow> to_double x = Whole x"
proof -
  assume "\<bar>x\<bar> < 2 ^ 53"
  then have "bit_length \<bar>x\<bar> \<le> 53" by (rule bit_length_le)
  then show ?thesis by (simp add: to_double_def Let_def)
qed

lemma to_double_edge:
  "to_double 9007199254740992 = Whole 9007199254740992"
  "to_double (- 9007199254740992) = Whole (- 9007199254740992)"
  by (simp_all add: to_double_def Let_def bit_length_54)

text \<open>Whole numbers up to \<open>2 ^ 53\<close> in magnitude are held exactly.\<close>

lemma to_double_exact: "\<bar>x\<bar> \<le> 2 ^ 53 \<Longrightarrow> to_double x = Whole x"
proof -
  assume a: "\<bar>x\<bar> \<le> 2 ^ 53"
  then have "\<bar>x\<bar> < 2 ^ 53 \<or> x = 9007199254740992 \<or> x = - 9007199254740992"
    by (simp add: abs_if split: if_splits) linarith+
  then show ?thesis
    using to_double_small [of x] to_double_edge by auto
qed

lemma js_minus_exact:
  "\<bar>c\<bar> \<le> 2 ^ 53 \<Longrightarrow> \<bar>n\<bar> \<le> 2 ^ 53 \<Longrightarrow> \<bar>c - n\<bar> \<le> 2 ^ 53 \<Longrightarrow>
   js_minus (Whole c) (Whole n) = Whole (c - n)"
  by (simp add: js_minus_def to_double_exact)

lemma js_minus_held:
  "to_double c = Whole c \<Longrightarrow> to_double n = Whole n \<Longrightarrow>
   js_minus (Whole c) (Whole n) = to_double (c - n)"
  by (simp add: js_minus_def)

text \<open>Beyond that range the difference is rounded: \<open>10 ^ 16 - 1\<close> is not a double.\<close>

lemma to_double_16:
  "to_double 10000000000000000 = Whole 10000000000000000"
  "to_double 9999999999999999 = Whole 10000000000000000"
  by (simp_all add: to_double_def Let_def bit_length_54)

lemma js_minus_16:
  "js_minus (Whole 10000000000000000) (Whole 1) = Whole 10000000000000000"
  by (simp add: js_minus_def to_double_16 to_double_exact)

lemma truthy_zero [simp]: "\<not> truthy 0"
  by (simp add: zero_number_def)

subsection \<open>The interceptor\<close>

lemma rejected_snd [simp]:
  "snd (response_rejected error :: event list \<times> (api_error + 'a)) = Inl error"
  by (simp add: response_rejected_def)

lemma rejected_run [simp]:
  "run s (fst (response_rejected error :: event list \<times> (api_error + 'a))) = s"
  by (simp add: response_rejected_def)

lemma rejected_list_ex [simp]:
  "\<not> list_ex is_request (fst (response_rejected error :: event list \<times> (api_error + 'a)))"
  "\<not> list_ex is_chat_request (fst (response_rejected error :: event list \<times> (api_error + 'a)))"
  "\<not> list_ex is_create_request (fst (response_rejected error :: event list \<times> (api_error + 'a)))"
  "\<not> list_ex is_set_user (fst (response_rejected error :: event list \<times> (api_error + 'a)))"
  "\<not> list_ex (appends_exchange old)
         (fst (response_rejected error :: event list \<times> (api_error + 'a)))"
  by (simp_all add: response_rejected_def)

lemma rejected_filter [simp]:
  "filter is_request (fst (response_rejected error :: event list \<times> (api_error + 'a))) = []"
  "filter is_chat_request (fst (response_rejected error :: event list \<times> (api_error + 'a))) = []"
  "filter is_create_request (fst (response_rejected error :: event list \<times> (api_error + 'a))) = []"
  "filter is_set_user (fst (response_rejected error :: event list \<times> (api_error + 'a))) = []"
  by (simp_all add: response_rejected_def)

lemma api_call_Inr [simp]: "api_call request (Inr response) = ([request], Inr response)"
  by (simp add: api_call_def response_fulfilled_def)

lemma api_call_Inl [simp]:
  "api_call request (Inl error) =
     (request # fst (response_rejected error :: event list \<times> (api_error + 'a)),
      (Inl error :: api_error + 'a))"
  by (simp add: api_call_def)

subsection \<open>Session resolution\<close>

lemma createNewSession_Inr:
  "createNewSession s (Inr newSession) =
     [PostChatSessions ''New Chat'' (selectedModel s),
      SetSessions (newSession # sessions s), SetCurrentSession (Some newSession),
      SetMessages [], ToastSuccess ''New chat session created'']"
  by (simp add: createNewSession_def chatAPI_createSession_def)

lemma createNewSession_Inl:
  "createNewSession s (Inl error) =
     PostChatSessions ''New Chat'' (selectedModel s)
     # fst (response_rejected error :: event list \<times> (api_error + chat_session))
     @ [ConsoleError ''Error creating session:'' (AxiosError error),
        ToastError ''Failed to create new session'']"
  by (simp add: createNewSession_def chatAPI_createSession_def)

lemma resolve_session_quiet [simp]:
  "\<not> list_ex is_chat_request (resolve_session s create_raw)"
  "\<not> list_ex is_set_user (resolve_session s create_raw)"
  "\<not> list_ex (appends_exchange old) (resolve_session s create_raw)"
  "filter is_chat_request (resolve_session s create_raw) = []"
  "filter is_set_user (resolve_session s create_raw) = []"
  by (cases create_raw; simp add: resolve_session_def createNewSession_Inr createNewSession_Inl)+

lemma resolve_session_user [simp]: "user (run s' (resolve_session s create_raw)) = user s'"
  by (cases create_raw; simp add: resolve_session_def createNewSession_Inr createNewSession_Inl)

subsection \<open>The ways through sendMessage\<close>

lemma sendMessage_blank:
  "trim (inputMessage s) = [] \<Longrightarrow> sendMessage s create_raw chat_raw = (Blank, [])"
  by (simp add: sendMessage_def)

lemma sendMessage_insufficient:
  "trim (inputMessage s) \<noteq> [] \<Longrightarrow> insufficient_credits (user s) \<Longrightarrow>
   sendMessage s create_raw chat_raw =
     (Insufficient, [ToastError ''Insufficient credits. Please contact admin.''])"
  by (simp add: sendMessage_def)

lemma sendMessage_failed:
  "trim (inputMessage s) \<noteq> [] \<Longrightarrow> \<not> insufficient_credits (user s) \<Longrightarrow>
   sendMessage s create_raw (Inl error) =
     (Caught (AxiosError error),
      resolve_session s create_raw
      @ [SetMessages (messages s @ [\<lparr>role = ''user'', content = trim (inputMessage s)\<rparr>]),
         SetInputMessage [], SetLoading True,
         PostChat \<lparr>data_messages =
                     messages s @ [\<lparr>role = ''user'', content = trim (inputMessage s)\<rparr>],
                   data_model = selectedModel s, max_tokens = 1000, temperature = 7 / 10\<rparr>]
      @ fst (response_rejected error :: event list \<times> (api_error + chat_reply))
      @ send_catch s (AxiosError error) @ [SetLoading False])"
  by (simp add: sendMessage_def send_try_def chatAPI_sendMessage_def Let_def)

lemma sendMessage_replied:
  "trim (inputMessage s) \<noteq> [] \<Longrightarrow> \<not> insufficient_credits (user s) \<Longrightarrow>
   sendMessage s create_raw (Inr response) =
     (if truthy (reported_usage response) \<and> user s = None
      then (Caught TypeError,
            resolve_session s create_raw
            @ [SetMessages (messages s @ [\<lparr>role = ''user'', content = trim (inputMessage s)\<rparr>]),
               SetInputMessage [], SetLoading True,
               PostChat \<lparr>data_messages =
                           messages s @ [\<lparr>role = ''user'', content = trim (inputMessage s)\<rparr>],
                         data_model = selectedModel s, max_tokens = 1000,
                         temperature = 7 / 10\<rparr>,
               SetMessages (messages s @ [\<lparr>role = ''user'', content = trim (inputMessage s)\<rparr>,
                                          \<lparr>role = ''assistant'',
                                           content = reply_content response\<rparr>])]
            @ send_catch s TypeError @ [SetLoading False])
      else (Completed,
            resolve_session s create_raw
            @ [SetMessages (messages s @ [\<lparr>role = ''user'', content = trim (inputMessage s)\<rparr>]),
               SetInputMessage [], SetLoading True,
               PostChat \<lparr>data_messages =
                           messages s @ [\<lparr>role = ''user'', content = trim (inputMessage s)\<rparr>],
                         data_model = selectedModel s, max_tokens = 1000,
                         temperature = 7 / 10\<rparr>,
               SetMessages (messages s @ [\<lparr>role = ''user'', content = trim (inputMessage s)\<rparr>,
                                          \<lparr>role = ''assistant'',
                                           content = reply_content response\<rparr>])]
            @ (case user s of
                 None \<Rightarrow> []
               | Some u \<Rightarrow> if truthy (reported_usage response) \<and> \<not> is_admin u
                           then [SetUser (u\<lparr>credits :=
                                   js_minus (credits u) (reported_usage response)\<rparr>)]
                           else [])
            @ [SetLoading False]))"
  by (simp add: sendMessage_def send_try_def chatAPI_sendMessage_def Let_def
        reported_usage_def updateUserCredits_def split: option.splits)

lemma Completed_admitted:
  assumes "fst (sendMessage s create_raw chat_raw) = Completed"
  shows "trim (inputMessage s) \<noteq> []" and "\<not> insufficient_credits (user s)"
proof -
  show nb: "trim (inputMessage s) \<noteq> []"
    using assms by (auto simp: sendMessage_blank)
  show "\<not> insufficient_credits (user s)"
    using assms nb by (auto simp: sendMessage_insufficient)
qed

text \<open>
  A send runs to the end of its \<^verbatim>\<open>try\<close> block exactly when the draft is not blank,
  the credit check lets it pass, the completion request is answered, and the credit update
  does not meet a missing user.
\<close>

lemma sendMessage_Completed_iff:
  "fst (sendMessage s create_raw chat_raw) = Completed \<longleftrightarrow>
     trim (inputMessage s) \<noteq> [] \<and> \<not> insufficient_credits (user s)
     \<and> (\<exists>response. chat_raw = Inr response
            \<and> \<not> (truthy (reported_usage response) \<and> user s = None))"
proof (cases "trim (inputMessage s) \<noteq> [] \<and> \<not> insufficient_credits (user s)")
  case True
  then show ?thesis
    by (cases chat_raw) (auto simp: sendMessage_failed sendMessage_replied)
next
  case False
  then show ?thesis
    using Completed_admitted [of s create_raw chat_raw] by auto
qed

subsection \<open>The session store\<close>

lemma delete_endpoint_absent:
  assumes "delete_endpoint store sessionId ownerId = (raw, store')"
  shows "store_deleteSession store' sessionId ownerId = Inl NotFound"
proof (cases "store sessionId")
  case None
  then show ?thesis
    using assms by (auto simp: delete_endpoint_def store_deleteSession_def)
next
  case (Some entry)
  then show ?thesis
    using assms
    by (cases "owner entry = ownerId") (auto simp: delete_endpoint_def store_deleteSession_def)
qed

lemma delete_endpoint_NotFound:
  assumes "store_deleteSession store sessionId ownerId = Inl NotFound"
  shows "delete_endpoint store sessionId ownerId = (Inl (http_error NotFound), store)"
  using assms by (simp add: delete_endpoint_def)

lemma delete_endpoint_then_get:
  assumes "delete_endpoint store sessionId ownerId = (raw, store')"
    and "\<forall>entry. store sessionId = Some entry \<longrightarrow> owner entry = ownerId"
  shows "getSession store' sessionId ownerId = Inl NotFound"
proof (cases "store sessionId")
  case None
  then show ?thesis
    using assms by (auto simp: delete_endpoint_def store_deleteSession_def getSession_def)
next
  case (Some entry)
  then have "owner entry = ownerId" using assms(2) by simp
  then show ?thesis
    using assms(1) Some by (auto simp: delete_endpoint_def store_deleteSession_def getSession_def)
qed




lemma deleteSession_rejected:
  "deleteSession s sessionId (Inl error) =
     [StopPropagation, DeleteChatSession sessionId]
     @ fst (response_rejected error :: event list \<times> (api_error + unit))
     @ [ConsoleError ''Error deleting session:'' (AxiosError error),
        ToastError ''Failed to delete session'']"
  by (simp add: deleteSession_def chatAPI_deleteSession_def)

subsection \<open>Evaluating the samples\<close>

lemmas send_defs = sendMessage_def send_try_def send_catch_def resolve_session_def
  createNewSession_def chatAPI_sendMessage_def chatAPI_createSession_def
  updateUserCredits_def insufficient_credits_def usage_total_tokens_def reported_usage_def
  response_rejected_def Let_def trim_def isWhiteSpace_def zero_number_def less_eq_number_def
  js_minus_exact

lemmas sample_defs = sample_user_def sample_admin_def sample_broke_def sample_session_def
  sample_reply_def sample_reply_no_usage_def sample_error_def sample_page_def
  sample_fresh_page_def sample_rich_def sample_reply_one_def sample_unauthorized_def
  sample_browser_def sample_stale_page_def

section \<open>Admission\<close>

text \<open>
  Claim C1.  For a signed-in user who is not an administrator and whose credits are zero
  or less, no call of \<^verbatim>\<open>sendMessage\<close> issues any request (neither the completion nor
  a session creation) and the whole component state, message list and credit balance
  included, is as before; and when there is a draft to send, the call leaves through the
  credit check, its only effect being the insufficient-credits toast.
\<close>

theorem sendMessage_denied_without_credits:
  assumes "user s = Some u" and "\<not> is_admin u" and "credits u \<le> 0"
  shows "run s (snd (sendMessage s create_raw chat_raw)) = s
         \<and> filter is_request (snd (sendMessage s create_raw chat_raw)) = []
         \<and> (trim (inputMessage s) \<noteq> [] \<longrightarrow>
              sendMessage s create_raw chat_raw =
                (Insufficient, [ToastError ''Insufficient credits. Please contact admin.'']))"
  using assms by (simp add: sendMessage_def insufficient_credits_def)

theorem sendMessage_denied_witness:
  "user (sample_page sample_broke) = Some sample_broke
   \<and> \<not> is_admin sample_broke \<and> credits sample_broke \<le> 0
   \<and> run (sample_page sample_broke)
         (snd (sendMessage (sample_page sample_broke) (Inr sample_session) (Inr sample_reply)))
       = sample_page sample_broke
   \<and> filter is_request
         (snd (sendMessage (sample_page sample_broke) (Inr sample_session) (Inr sample_reply)))
       = []
   \<and> trim (inputMessage (sample_page sample_broke)) \<noteq> []
   \<and> sendMessage (sample_page sample_broke) (Inr sample_session) (Inr sample_reply) =
       (Insufficient, [ToastError ''Insufficient credits. Please contact admin.''])"
  using sendMessage_denied_without_credits
          [of "sample_page sample_broke" sample_broke "Inr sample_session" "Inr sample_reply"]
  by (simp add: sample_page_def sample_broke_def trim_def isWhiteSpace_def
        zero_number_def less_eq_number_def)

section \<open>Settlement\<close>

text \<open>
  Claim C2, as amended.  After a send that ran to the end of its \<^verbatim>\<open>try\<close> block: when
  the user is not an administrator and the credits before, the tokens the reply reports (a
  missing count being none) and their difference are whole numbers of magnitude at most
  \<open>2 ^ 53\<close>, the user object is the one before with its credits lowered by exactly those
  tokens; in general the new credits are the result of the subtraction on numbers, which
  rounds the difference to the nearest double.  The user object of an administrator is the
  one before, whatever the reply reports.
\<close>

theorem sendMessage_settles_credits:
  assumes "fst (sendMessage s create_raw chat_raw) = Completed"
    and "chat_raw = Inr response" and "user s = Some u"
  shows "(\<forall>c n. \<not> is_admin u \<and> credits u = Whole c \<and> reported_usage response = Whole n
               \<and> \<bar>c\<bar> \<le> 2 ^ 53 \<and> \<bar>n\<bar> \<le> 2 ^ 53 \<and> \<bar>c - n\<bar> \<le> 2 ^ 53
            \<longrightarrow> user (run s (snd (sendMessage s create_raw chat_raw)))
                  = Some (u\<lparr>credits := Whole (c - n)\<rparr>))
       \<and> (\<not> is_admin u \<longrightarrow>
            user (run s (snd (sendMessage s create_raw chat_raw)))
              = Some (if truthy (reported_usage response)
                      then u\<lparr>credits := js_minus (credits u) (reported_usage response)\<rparr>
                      else u))
       \<and> (is_admin u \<longrightarrow> user (run s (snd (sendMessage s create_raw chat_raw))) = Some u)"
proof -
  note adm = Completed_admitted [OF assms(1)]
  have after: "user (run s (snd (sendMessage s create_raw chat_raw)))
      = Some (if truthy (reported_usage response) \<and> \<not> is_admin u
              then u\<lparr>credits := js_minus (credits u) (reported_usage response)\<rparr> else u)"
    using assms(2,3) by (simp add: sendMessage_replied [OF adm])
  have exact: "user (run s (snd (sendMessage s create_raw chat_raw)))
                  = Some (u\<lparr>credits := Whole (c - n)\<rparr>)"
    if "\<not> is_admin u" and c: "credits u = Whole c" and n: "reported_usage response = Whole n"
      and "\<bar>c\<bar> \<le> 2 ^ 53" and "\<bar>n\<bar> \<le> 2 ^ 53" and "\<bar>c - n\<bar> \<le> 2 ^ 53"
    for c n
  proof (cases "n = 0")
    case True
    have "u\<lparr>credits := credits u\<rparr> = u" by simp
    then have "u\<lparr>credits := Whole c\<rparr> = u" using c by simp
    then show ?thesis using True n after by simp
  next
    case False
    have "js_minus (credits u) (reported_usage response) = Whole (c - n)"
      using that by (simp add: js_minus_exact)
    then show ?thesis using False n that(1) after by simp
  qed
  show ?thesis using after exact by auto
qed

theorem sendMessage_settles_witness:
  "fst (sendMessage (sample_page sample_user) (Inl sample_error) (Inr sample_reply)) = Completed
   \<and> user (sample_page sample_user) = Some sample_user \<and> \<not> is_admin sample_user
   \<and> credits sample_user = Whole 1000 \<and> reported_usage sample_reply = Whole 37
   \<and> user (run (sample_page sample_user)
         (snd (sendMessage (sample_page sample_user) (Inl sample_error) (Inr sample_reply))))
       = Some \<lparr>is_admin = False, credits = Whole 963\<rparr>
   \<and> fst (sendMessage (sample_page sample_admin) (Inl sample_error) (Inr sample_reply)) = Completed
   \<and> user (sample_page sample_admin) = Some sample_admin \<and> is_admin sample_admin
   \<and> user (run (sample_page sample_admin)
         (snd (sendMessage (sample_page sample_admin) (Inl sample_error) (Inr sample_reply))))
       = Some \<lparr>is_admin = True, credits = Whole 999999999\<rparr>"
  using sendMessage_settles_credits
          [of "sample_page sample_user" "Inl sample_error" "Inr sample_reply" sample_reply
              sample_user]
        sendMessage_settles_credits
          [of "sample_page sample_admin" "Inl sample_error" "Inr sample_reply" sample_reply
              sample_admin]
  by (simp add: send_defs sample_defs)

text \<open>
  Claim C2 as first stated asks for the credits before minus the tokens used after every
  successful send.  A user who is not an administrator holds \<open>10 ^ 16\<close> credits and the
  reply reports one token: the send runs to its end, and the credits afterwards are
  \<open>10 ^ 16\<close> still, not \<open>10 ^ 16 - 1\<close>, which no double holds.
\<close>

theorem sendMessage_settles_counterexample:
  "fst (sendMessage (sample_page sample_rich) (Inl sample_error) (Inr sample_reply_one))
     = Completed
   \<and> user (sample_page sample_rich) = Some sample_rich \<and> \<not> is_admin sample_rich
   \<and> credits sample_rich = Whole 10000000000000000
   \<and> reported_usage sample_reply_one = Whole 1
   \<and> user (run (sample_page sample_rich)
         (snd (sendMessage (sample_page sample_rich) (Inl sample_error)
                (Inr sample_reply_one))))
       = Some \<lparr>is_admin = False, credits = Whole 10000000000000000\<rparr>
   \<and> user (run (sample_page sample_rich)
         (snd (sendMessage (sample_page sample_rich) (Inl sample_error)
                (Inr sample_reply_one))))
       \<noteq> Some \<lparr>is_admin = False, credits = Whole (10000000000000000 - 1)\<rparr>"
  by (simp add: send_defs sample_defs js_minus_16)

section \<open>A failed completion\<close>

text \<open>
  Claim C3.  When a send with a draft has passed the credit check and its completion request
  is rejected, the \<^verbatim>\<open>catch\<close> block receives that very error, logs it and shows an
  error toast with the detail the error carries (or the fixed text when it carries none);
  no credit update is made, the user object is as before, and the message list is back to
  the one before the send.
\<close>

theorem sendMessage_failure_rolls_back:
  assumes "trim (inputMessage s) \<noteq> []" and "\<not> insufficient_credits (user s)"
    and "t = snd (sendMessage s create_raw (Inl error))"
  shows "fst (sendMessage s create_raw (Inl error)) = Caught (AxiosError error)
       \<and> ConsoleError ''Error sending message:'' (AxiosError error) \<in> set t
       \<and> ToastError (case detail error of
                       None \<Rightarrow> ''Failed to send message''
                     | Some d \<Rightarrow> if d = [] then ''Failed to send message'' else d) \<in> set t
       \<and> filter is_set_user t = []
       \<and> user (run s t) = user s
       \<and> messages (run s t) = messages s"
  using assms(3) by (simp add: sendMessage_failed [OF assms(1,2)] send_catch_def)

theorem sendMessage_failure_witness:
  "trim (inputMessage (sample_page sample_user)) \<noteq> []
   \<and> \<not> insufficient_credits (user (sample_page sample_user))
   \<and> fst (sendMessage (sample_page sample_user) (Inl sample_error) (Inl sample_error))
       = Caught (AxiosError sample_error)
   \<and> ToastError ''Upstream unavailable''
       \<in> set (snd (sendMessage (sample_page sample_user) (Inl sample_error) (Inl sample_error)))
   \<and> user (run (sample_page sample_user)
         (snd (sendMessage (sample_page sample_user) (Inl sample_error) (Inl sample_error))))
       = Some sample_user
   \<and> messages (run (sample_page sample_user)
         (snd (sendMessage (sample_page sample_user) (Inl sample_error) (Inl sample_error))))
       = []"
  using sendMessage_failure_rolls_back
          [of "sample_page sample_user" _ "Inl sample_error" sample_error, OF _ _ refl]
  by (simp add: send_defs sample_defs)

section \<open>Order of the steps\<close>

text \<open>
  Claim C4.  In the events of any call of \<^verbatim>\<open>sendMessage\<close>: no credit update comes
  before the event that shows the exchange (the message list of before with two more
  messages); that event does not come before the completion request, and it occurs only if
  the completion request was answered; and if the completion request is rejected there is
  no credit update at all, and the user object and the message list end as they were.
  (The user message alone is shown before the request is issued; the \<^verbatim>\<open>catch\<close> block
  takes it back.)
\<close>

theorem sendMessage_order:
  assumes "t = snd (sendMessage s create_raw chat_raw)"
  shows "first_before (appends_exchange (messages s)) is_set_user t
       \<and> first_before is_chat_request (appends_exchange (messages s)) t
       \<and> (list_ex (appends_exchange (messages s)) t \<longrightarrow> (\<exists>response. chat_raw = Inr response))
       \<and> (\<forall>error. chat_raw = Inl error \<longrightarrow>
            filter is_set_user t = [] \<and> user (run s t) = user s
            \<and> messages (run s t) = messages s)"
proof (cases "trim (inputMessage s) \<noteq> [] \<and> \<not> insufficient_credits (user s)")
  case False
  then have "t = [] \<or> t = [ToastError ''Insufficient credits. Please contact admin.'']"
    using assms
    by (cases "trim (inputMessage s) = []")
       (auto simp: sendMessage_blank sendMessage_insufficient)
  then show ?thesis by auto
next
  case True
  then have nb: "trim (inputMessage s) \<noteq> []" and adm: "\<not> insufficient_credits (user s)"
    by simp_all
  show ?thesis
  proof (cases chat_raw)
    case (Inl error)
    then show ?thesis
      using assms
      by (simp add: sendMessage_failed [OF nb adm] send_catch_def first_before_skip)
  next
    case (Inr response)
    then show ?thesis
      using assms
      by (simp add: sendMessage_replied [OF nb adm] send_catch_def first_before_skip
            split: option.splits)
  qed
qed

theorem sendMessage_order_witness:
  "list_ex (appends_exchange (messages (sample_page sample_user)))
      (snd (sendMessage (sample_page sample_user) (Inl sample_error) (Inr sample_reply)))
   \<and> list_ex is_set_user
      (snd (sendMessage (sample_page sample_user) (Inl sample_error) (Inr sample_reply)))
   \<and> first_before (appends_exchange (messages (sample_page sample_user))) is_set_user
      (snd (sendMessage (sample_page sample_user) (Inl sample_error) (Inr sample_reply)))
   \<and> first_before is_chat_request (appends_exchange (messages (sample_page sample_user)))
      (snd (sendMessage (sample_page sample_user) (Inl sample_error) (Inr sample_reply)))
   \<and> filter is_set_user
      (snd (sendMessage (sample_page sample_user) (Inl sample_error) (Inl sample_error))) = []
   \<and> messages (run (sample_page sample_user)
        (snd (sendMessage (sample_page sample_user) (Inl sample_error) (Inl sample_error))))
      = messages (sample_page sample_user)"
  using sendMessage_order
          [of _ "sample_page sample_user" "Inl sample_error" "Inr sample_reply", OF refl]
        sendMessage_order
          [of _ "sample_page sample_user" "Inl sample_error" "Inl sample_error", OF refl]
  by (simp add: send_defs sample_defs)

section \<open>A successful send\<close>

text \<open>
  Claim C5.  After a send that ran to the end of its \<^verbatim>\<open>try\<close> block, the message list
  is the list of before followed by the user message (the trimmed draft) and the assistant
  message (the content of the reply): two messages more, the earlier ones unchanged and in
  place.
\<close>

theorem sendMessage_appends:
  assumes "fst (sendMessage s create_raw chat_raw) = Completed"
    and "chat_raw = Inr response"
  shows "messages (run s (snd (sendMessage s create_raw chat_raw)))
           = messages s @ [\<lparr>role = ''user'', content = trim (inputMessage s)\<rparr>,
                           \<lparr>role = ''assistant'', content = reply_content response\<rparr>]
       \<and> length (messages (run s (snd (sendMessage s create_raw chat_raw))))
           = length (messages s) + 2
       \<and> take (length (messages s)) (messages (run s (snd (sendMessage s create_raw chat_raw))))
           = messages s"
proof -
  note adm = Completed_admitted [OF assms(1)]
  have "fst (sendMessage s create_raw (Inr response)) = Completed"
    using assms by simp
  then have ok: "\<not> (truthy (reported_usage response) \<and> user s = None)"
    by (auto simp: sendMessage_replied [OF adm] split: if_splits)
  have "messages (run s (snd (sendMessage s create_raw chat_raw)))
           = messages s @ [\<lparr>role = ''user'', content = trim (inputMessage s)\<rparr>,
                           \<lparr>role = ''assistant'', content = reply_content response\<rparr>]"
    using assms(2) ok by (auto simp: sendMessage_replied [OF adm] split: option.splits)
  then show ?thesis by simp
qed

theorem sendMessage_appends_witness:
  "fst (sendMessage (sample_fresh_page sample_user) (Inr sample_session) (Inr sample_reply))
     = Completed
   \<and> messages (run (sample_fresh_page sample_user)
        (snd (sendMessage (sample_fresh_page sample_user) (Inr sample_session)
               (Inr sample_reply))))
     = [\<lparr>role = ''user'', content = ''Hi''\<rparr>, \<lparr>role = ''assistant'', content = ''Hello!''\<rparr>]"
  using sendMessage_appends
          [of "sample_fresh_page sample_user" "Inr sample_session" "Inr sample_reply"
              sample_reply]
  by (simp add: send_defs sample_defs)

section \<open>Session resolution\<close>

text \<open>
  Claim C6.  The claim asks that a send issued while no session is selected first has a
  new session created, with an empty message list, before the completion is invoked.
  \<^verbatim>\<open>sendMessage\<close> calls \<^verbatim>\<open>createNewSession\<close> under the comment ``Create session if
  none exists'' and does not look at how the call ended.  On a page with no session
  selected, let the request to create one be rejected and the completion request be
  answered: the send runs to its end, the completion request is issued, and afterwards no
  session is in the list and none is selected.  From the page this leaves, with a new
  draft, let both requests be answered: the new session becomes the current one, and the
  message list shown for it holds the two messages of before and the two new ones.
\<close>

theorem sendMessage_creation_failure_ignored:
  "currentSession (sample_fresh_page sample_user) = None
   \<and> fst (sendMessage (sample_fresh_page sample_user) (Inl sample_error) (Inr sample_reply))
       = Completed
   \<and> filter is_chat_request
         (snd (sendMessage (sample_fresh_page sample_user) (Inl sample_error) (Inr sample_reply)))
       = [PostChat \<lparr>data_messages = [\<lparr>role = ''user'', content = ''Hi''\<rparr>],
                    data_model = ''mistralai/mistral-7b-instruct:free'',
                    max_tokens = 1000, temperature = 7 / 10\<rparr>]
   \<and> sessions (run (sample_fresh_page sample_user)
         (snd (sendMessage (sample_fresh_page sample_user) (Inl sample_error) (Inr sample_reply))))
       = []
   \<and> currentSession (run (sample_fresh_page sample_user)
         (snd (sendMessage (sample_fresh_page sample_user) (Inl sample_error) (Inr sample_reply))))
       = None
   \<and> (run (sample_fresh_page sample_user)
         (snd (sendMessage (sample_fresh_page sample_user) (Inl sample_error)
                (Inr sample_reply))))\<lparr>inputMessage := ''Again''\<rparr>
       = sample_stale_page
   \<and> currentSession sample_stale_page = None
   \<and> currentSession (run sample_stale_page
         (snd (sendMessage sample_stale_page (Inr sample_session) (Inr sample_reply))))
       = Some sample_session
   \<and> messages (run sample_stale_page
         (snd (sendMessage sample_stale_page (Inr sample_session) (Inr sample_reply))))
       = [\<lparr>role = ''user'', content = ''Hi''\<rparr>, \<lparr>role = ''assistant'', content = ''Hello!''\<rparr>,
          \<lparr>role = ''user'', content = ''Again''\<rparr>,
          \<lparr>role = ''assistant'', content = ''Hello!''\<rparr>]"
  by (simp add: send_defs sample_defs)

section \<open>Rejected requests\<close>




section \<open>Deleting a session twice\<close>

text \<open>
  Claim C8.  Let the delete endpoint be called twice for the same session and caller, the
  client handling each answer with \<^verbatim>\<open>deleteSession\<close>.  After the first call, fetching
  the session yields \<open>NotFound\<close> (for a session that is the caller's own, or absent); the
  second call yields \<open>NotFound\<close> and leaves the store as it was; the client handles that
  answer by its error toast, and its state, session list included, is the one after the
  first call.
\<close>

theorem delete_twice:
  assumes "delete_endpoint store sessionId ownerId = (raw1, store1)"
    and "delete_endpoint store1 sessionId ownerId = (raw2, store2)"
    and "s1 = run s (deleteSession s sessionId raw1)"
    and "s2 = run s1 (deleteSession s1 sessionId raw2)"
  shows "((\<forall>entry. store sessionId = Some entry \<longrightarrow> owner entry = ownerId) \<longrightarrow>
            getSession store1 sessionId ownerId = Inl NotFound)
       \<and> store_deleteSession store1 sessionId ownerId = Inl NotFound
       \<and> raw2 = Inl (http_error NotFound)
       \<and> store2 = store1
       \<and> last (deleteSession s1 sessionId raw2) = ToastError ''Failed to delete session''
       \<and> s2 = s1
       \<and> sessions s2 = sessions s1"
proof -
  have gone: "store_deleteSession store1 sessionId ownerId = Inl NotFound"
    using assms(1) by (rule delete_endpoint_absent)
  have second: "raw2 = Inl (http_error NotFound)" "store2 = store1"
    using assms(2) delete_endpoint_NotFound [OF gone] by simp_all
  have same: "s2 = s1"
    using assms(4) second by (simp add: deleteSession_rejected)
  have toast: "last (deleteSession s1 sessionId raw2) = ToastError ''Failed to delete session''"
    using second by (simp add: deleteSession_rejected)
  show ?thesis
    using gone second same toast delete_endpoint_then_get [OF assms(1)] by simp
qed

theorem delete_twice_witness:
  "delete_endpoint sample_store ''s1'' ''alice'' = (Inr (), sample_store(''s1'' := None))
   \<and> delete_endpoint (sample_store(''s1'' := None)) ''s1'' ''alice''
       = (Inl (http_error NotFound), sample_store(''s1'' := None))
   \<and> map_option owner (sample_store ''s1'') = Some ''alice''
   \<and> getSession (sample_store(''s1'' := None)) ''s1'' ''alice'' = Inl NotFound
   \<and> sessions (run (sample_page sample_user)
        (deleteSession (sample_page sample_user) ''s1'' (Inr ()))) = []
   \<and> sessions (run (run (sample_page sample_user)
                      (deleteSession (sample_page sample_user) ''s1'' (Inr ())))
        (deleteSession (run (sample_page sample_user)
                          (deleteSession (sample_page sample_user) ''s1'' (Inr ())))
           ''s1'' (Inl (http_error NotFound)))) = []"
  using delete_twice
          [of sample_store "''s1''" "''alice''" "Inr ()" "sample_store(''s1'' := None)"
              "Inl (http_error NotFound)" "sample_store(''s1'' := None)" _
              "sample_page sample_user" _, OF _ _ refl refl]
  by (simp add: delete_endpoint_def store_deleteSession_def getSession_def sample_store_def
        deleteSession_def chatAPI_deleteSession_def response_rejected_def sample_defs)

section \<open>Replies without a token count\<close>

text \<open>
  Claim C9.  When a send with a draft has passed the credit check and the reply carries no
  \<^verbatim>\<open>total_tokens\<close> (no usage object, no field, or the value zero), the send runs to
  the end of its \<^verbatim>\<open>try\<close> block without any credit update, and the user object is the
  one before, administrator or not.
\<close>

theorem sendMessage_no_usage_no_debit:
  assumes "trim (inputMessage s) \<noteq> []" and "\<not> insufficient_credits (user s)"
    and "usage_total_tokens response = None \<or> usage_total_tokens response = Some 0"
    and "t = snd (sendMessage s create_raw (Inr response))"
  shows "fst (sendMessage s create_raw (Inr response)) = Completed
       \<and> filter is_set_user t = []
       \<and> user (run s t) = user s"
proof -
  have "reported_usage response = 0"
    using assms(3) by (auto simp: reported_usage_def)
  then have "\<not> truthy (reported_usage response)"
    by simp
  then show ?thesis
    using assms(4) by (simp add: sendMessage_replied [OF assms(1,2)] split: option.splits)
qed

theorem sendMessage_no_usage_witness:
  "trim (inputMessage (sample_page sample_user)) \<noteq> []
   \<and> \<not> insufficient_credits (user (sample_page sample_user))
   \<and> usage_total_tokens sample_reply_no_usage = None
   \<and> fst (sendMessage (sample_page sample_user) (Inl sample_error) (Inr sample_reply_no_usage))
       = Completed
   \<and> filter is_set_user
       (snd (sendMessage (sample_page sample_user) (Inl sample_error)
               (Inr sample_reply_no_usage))) = []
   \<and> user (run (sample_page sample_user)
       (snd (sendMessage (sample_page sample_user) (Inl sample_error)
               (Inr sample_reply_no_usage))))
       = Some \<lparr>is_admin = False, credits = Whole 1000\<rparr>"
  using sendMessage_no_usage_no_debit
          [of "sample_page sample_user" sample_reply_no_usage _ "Inl sample_error",
           OF _ _ _ refl]
  by (simp add: send_defs sample_defs)

section \<open>A failed completion after a session was created\<close>

text \<open>
  Claim C10.  When a send with a draft has passed the credit check with no session
  selected, the request to create a session is answered and the completion request is
  rejected: the new session stays at the head of the session list and stays the current
  session, the message list is back to the one before the send, the user object is as
  before, and the only requests issued were the session creation and the completion.
\<close>

theorem sendMessage_failure_keeps_new_session:
  assumes "trim (inputMessage s) \<noteq> []" and "\<not> insufficient_credits (user s)"
    and "currentSession s = None"
    and "t = snd (sendMessage s (Inr newSession) (Inl error))"
  shows "sessions (run s t) = newSession # sessions s
       \<and> currentSession (run s t) = Some newSession
       \<and> messages (run s t) = messages s
       \<and> user (run s t) = user s
       \<and> filter is_request t =
           [PostChatSessions ''New Chat'' (selectedModel s),
            PostChat \<lparr>data_messages =
                        messages s @ [\<lparr>role = ''user'', content = trim (inputMessage s)\<rparr>],
                      data_model = selectedModel s, max_tokens = 1000, temperature = 7 / 10\<rparr>]"
  using assms(3,4)
  by (simp add: sendMessage_failed [OF assms(1,2)] send_catch_def resolve_session_def
        createNewSession_Inr)

theorem sendMessage_failure_keeps_witness:
  "trim (inputMessage (sample_fresh_page sample_user)) \<noteq> []
   \<and> \<not> insufficient_credits (user (sample_fresh_page sample_user))
   \<and> currentSession (sample_fresh_page sample_user) = None
   \<and> sessions (run (sample_fresh_page sample_user)
        (snd (sendMessage (sample_fresh_page sample_user) (Inr sample_session)
               (Inl sample_error))))
       = [sample_session]
   \<and> currentSession (run (sample_fresh_page sample_user)
        (snd (sendMessage (sample_fresh_page sample_user) (Inr sample_session)
               (Inl sample_error))))
       = Some sample_session
   \<and> messages (run (sample_fresh_page sample_user)
        (snd (sendMessage (sample_fresh_page sample_user) (Inr sample_session)
               (Inl sample_error))))
       = []
   \<and> user (run (sample_fresh_page sample_user)
        (snd (sendMessage (sample_fresh_page sample_user) (Inr sample_session)
               (Inl sample_error))))
       = Some sample_user"
  using sendMessage_failure_keeps_new_session
          [of "sample_fresh_page sample_user" _ sample_session sample_error, OF _ _ _ refl]
  by (simp add: send_defs sample_defs)

end
